theory Spec2Isabelle
  imports Complex_Main
begin

section \<open>Numbers: numpy floats\<close>

text \<open>
  The arrays of \<^verbatim>\<open>plane.py\<close> hold IEEE floating-point numbers. They are modelled
  as exact reals together with the three special values that the arithmetic of the
  source can produce or receive: the two infinities and NaN. Rounding (and with it
  overflow, underflow, the sign of zero and the final cast to single precision) is not
  modelled: a finite number is an exact real. What is modelled is how the special values
  arise and propagate, since numpy does not raise on a division by zero: \<open>0/0\<close> is NaN,
  \<open>x/0\<close> is an infinity, and NaN compares unequal to everything.
\<close>

datatype fl = Fin real | PInf | MInf | NaN

fun is_finite :: "fl \<Rightarrow> bool" where
  "is_finite (Fin a) = True"
| "is_finite x = False"

text \<open>The infinity with the sign of a real; the result of \<open>0 * inf\<close> and of \<open>0 / 0\<close> is NaN.\<close>

definition signed_inf :: "real \<Rightarrow> fl" where
  "signed_inf a = (if a = 0 then NaN else if 0 < a then PInf else MInf)"

instantiation fl :: "{uminus, plus, minus, times, inverse}"
begin

fun uminus_fl :: "fl \<Rightarrow> fl" where
  "uminus_fl (Fin a) = Fin (- a)"
| "uminus_fl PInf = MInf"
| "uminus_fl MInf = PInf"
| "uminus_fl NaN = NaN"

fun plus_fl :: "fl \<Rightarrow> fl \<Rightarrow> fl" where
  "plus_fl (Fin a) (Fin b) = Fin (a + b)"
| "plus_fl NaN y = NaN"
| "plus_fl x NaN = NaN"
| "plus_fl PInf MInf = NaN"
| "plus_fl MInf PInf = NaN"
| "plus_fl PInf y = PInf"
| "plus_fl x PInf = PInf"
| "plus_fl MInf y = MInf"
| "plus_fl x MInf = MInf"

definition minus_fl :: "fl \<Rightarrow> fl \<Rightarrow> fl" where
  "minus_fl x y = x + (- y)"

fun times_fl :: "fl \<Rightarrow> fl \<Rightarrow> fl" where
  "times_fl (Fin a) (Fin b) = Fin (a * b)"
| "times_fl NaN y = NaN"
| "times_fl x NaN = NaN"
| "times_fl (Fin a) PInf = signed_inf a"
| "times_fl (Fin a) MInf = signed_inf (- a)"
| "times_fl PInf (Fin b) = signed_inf b"
| "times_fl MInf (Fin b) = signed_inf (- b)"
| "times_fl PInf PInf = PInf"
| "times_fl MInf MInf = PInf"
| "times_fl PInf MInf = MInf"
| "times_fl MInf PInf = MInf"

text \<open>
  Division. A zero divisor is taken as \<open>+0\<close>, which is what every divisor of the
  source is when it is zero (a norm).
\<close>

fun divide_fl :: "fl \<Rightarrow> fl \<Rightarrow> fl" where
  "divide_fl (Fin a) (Fin b) = (if b = 0 then signed_inf a else Fin (a / b))"
| "divide_fl NaN y = NaN"
| "divide_fl x NaN = NaN"
| "divide_fl (Fin a) PInf = Fin 0"
| "divide_fl (Fin a) MInf = Fin 0"
| "divide_fl PInf (Fin b) = (if 0 \<le> b then PInf else MInf)"
| "divide_fl MInf (Fin b) = (if 0 \<le> b then MInf else PInf)"
| "divide_fl x y = NaN"

definition inverse_fl :: "fl \<Rightarrow> fl" where
  "inverse_fl x = divide (Fin 1) x"

instance ..

end

text \<open>\<^verbatim>\<open>np.sqrt\<close>: NaN on a negative argument.\<close>

fun fsqrt :: "fl \<Rightarrow> fl" where
  "fsqrt (Fin a) = (if a < 0 then NaN else Fin (sqrt a))"
| "fsqrt PInf = PInf"
| "fsqrt MInf = NaN"
| "fsqrt NaN = NaN"

text \<open>The comparison \<^verbatim>\<open>x == y\<close> of two floats: NaN is equal to nothing, itself included.\<close>

fun feq :: "fl \<Rightarrow> fl \<Rightarrow> bool" where
  "feq (Fin a) (Fin b) = (a = b)"
| "feq PInf PInf = True"
| "feq MInf MInf = True"
| "feq x y = False"

section \<open>Vectors and matrices\<close>

text \<open>A numpy array of shape (3,), of shape (4,), and of shape (4, 4) as its four rows.\<close>

type_synonym vec3 = "fl \<times> fl \<times> fl"
type_synonym vec4 = "fl \<times> fl \<times> fl \<times> fl"
type_synonym mat4 = "vec4 \<times> vec4 \<times> vec4 \<times> vec4"

fun finite3 :: "vec3 \<Rightarrow> bool" where
  "finite3 (x, y, z) = (is_finite x \<and> is_finite y \<and> is_finite z)"

fun dot3 :: "vec3 \<Rightarrow> vec3 \<Rightarrow> fl" where
  "dot3 (a0, a1, a2) (b0, b1, b2) = a0 * b0 + a1 * b1 + a2 * b2"

text \<open>\<^verbatim>\<open>np.linalg.norm\<close> of a vector: the square root of its dot product with itself.\<close>

definition linalg_norm :: "vec3 \<Rightarrow> fl" where
  "linalg_norm v = fsqrt (dot3 v v)"

text \<open>A vector divided by a scalar, \<^verbatim>\<open>v / s\<close>, and the other broadcast operations used.\<close>

fun vdiv :: "vec3 \<Rightarrow> fl \<Rightarrow> vec3" where
  "vdiv (x, y, z) s = (x / s, y / s, z / s)"

fun smul :: "fl \<Rightarrow> vec3 \<Rightarrow> vec3" where
  "smul s (x, y, z) = (s * x, s * y, s * z)"

fun vadd :: "vec3 \<Rightarrow> vec3 \<Rightarrow> vec3" where
  "vadd (a0, a1, a2) (b0, b1, b2) = (a0 + b0, a1 + b1, a2 + b2)"

fun vsub :: "vec3 \<Rightarrow> vec3 \<Rightarrow> vec3" where
  "vsub (a0, a1, a2) (b0, b1, b2) = (a0 - b0, a1 - b1, a2 - b2)"

text \<open>\<^verbatim>\<open>np.cross\<close>.\<close>

fun cross :: "vec3 \<Rightarrow> vec3 \<Rightarrow> vec3" where
  "cross (a0, a1, a2) (b0, b1, b2) =
     (a1 * b2 - a2 * b1, a2 * b0 - a0 * b2, a0 * b1 - a1 * b0)"

fun dot4 :: "vec4 \<Rightarrow> vec4 \<Rightarrow> fl" where
  "dot4 (a0, a1, a2, a3) (b0, b1, b2, b3) = a0 * b0 + a1 * b1 + a2 * b2 + a3 * b3"

text \<open>\<^verbatim>\<open>np.matmul\<close> of a matrix and a vector, and of two matrices.\<close>

fun matvec :: "mat4 \<Rightarrow> vec4 \<Rightarrow> vec4" where
  "matvec (r0, r1, r2, r3) v = (dot4 r0 v, dot4 r1 v, dot4 r2 v, dot4 r3 v)"

fun transpose4 :: "mat4 \<Rightarrow> mat4" where
  "transpose4 ((a00, a01, a02, a03), (a10, a11, a12, a13),
               (a20, a21, a22, a23), (a30, a31, a32, a33)) =
     ((a00, a10, a20, a30), (a01, a11, a21, a31),
      (a02, a12, a22, a32), (a03, a13, a23, a33))"

fun matmul :: "mat4 \<Rightarrow> mat4 \<Rightarrow> mat4" where
  "matmul (r0, r1, r2, r3) B =
     (matvec (transpose4 B) r0, matvec (transpose4 B) r1,
      matvec (transpose4 B) r2, matvec (transpose4 B) r3)"

text \<open>The slice \<^verbatim>\<open>v[0:3]\<close> of a 4-vector.\<close>

fun take3 :: "vec4 \<Rightarrow> vec3" where
  "take3 (x, y, z, w) = (x, y, z)"

text \<open>The last row of a matrix.\<close>

fun bottom_row :: "mat4 \<Rightarrow> vec4" where
  "bottom_row (r0, r1, r2, r3) = r3"

text \<open>
  The three matrices of \<^verbatim>\<open>_set_plane\<close>, each \<^verbatim>\<open>np.eye(4)\<close> with some entries
  assigned: \<^verbatim>\<open>scale[0, 0] = width; scale[1, 1] = height\<close>, the columns 0, 1, 2 of
  \<^verbatim>\<open>to_world\<close> (rows 0 to 2) are \<^verbatim>\<open>east_vec\<close>, \<^verbatim>\<open>north_vec\<close>,
  \<^verbatim>\<open>unit_normal\<close>, and column 3 of a translation (rows 0 to 2) is the offset.
\<close>

definition scale_matrix :: "fl \<Rightarrow> fl \<Rightarrow> mat4" where
  "scale_matrix w h =
     ((w, Fin 0, Fin 0, Fin 0),
      (Fin 0, h, Fin 0, Fin 0),
      (Fin 0, Fin 0, Fin 1, Fin 0),
      (Fin 0, Fin 0, Fin 0, Fin 1))"

fun to_world_matrix :: "vec3 \<Rightarrow> vec3 \<Rightarrow> vec3 \<Rightarrow> mat4" where
  "to_world_matrix (e0, e1, e2) (n0, n1, n2) (u0, u1, u2) =
     ((e0, n0, u0, Fin 0),
      (e1, n1, u1, Fin 0),
      (e2, n2, u2, Fin 0),
      (Fin 0, Fin 0, Fin 0, Fin 1))"

fun translate_matrix :: "vec3 \<Rightarrow> mat4" where
  "translate_matrix (c0, c1, c2) =
     ((Fin 1, Fin 0, Fin 0, c0),
      (Fin 0, Fin 1, Fin 0, c1),
      (Fin 0, Fin 0, Fin 1, c2),
      (Fin 0, Fin 0, Fin 0, Fin 1))"

section \<open>The plane object\<close>

text \<open>
  The data source of a plane. Of a yt slice the code reads \<^verbatim>\<open>axis\<close> and
  \<^verbatim>\<open>coord\<close>; of a cutting plane \<^verbatim>\<open>orienter.north_vector\<close>,
  \<^verbatim>\<open>orienter.normal_vector\<close> and \<^verbatim>\<open>center.value\<close>; of a projection
  \<^verbatim>\<open>axis\<close>. Any other container is \<open>OtherContainer\<close>.
\<close>

datatype data_source =
    YTSlice int fl
  | YTCuttingPlane vec3 vec3 vec3
  | YTProj int
  | OtherContainer

fun is_YTCuttingPlane :: "data_source \<Rightarrow> bool" where
  "is_YTCuttingPlane (YTCuttingPlane north nrm c) = True"
| "is_YTCuttingPlane d = False"

text \<open>
  The exceptions of the code. Both \<open>ValueError\<close>s are told apart by their message:
  \<open>NonAxisAlignedPlaneError\<close> is the one of \<^verbatim>\<open>_set_plane\<close> ("It looks like your plane
  is not normal to an axis, please set east_vec and north_vec before calling add_data()"),
  \<open>UnsupportedSourceKindError\<close> the one of \<^verbatim>\<open>PlaneData.add_data\<close> ("Unexpected
  data_source type"). \<open>IndexError\<close> is numpy's, for an axis outside the array.
\<close>

datatype error = NonAxisAlignedPlaneError | UnsupportedSourceKindError | IndexError

text \<open>The image of a fixed-resolution buffer: a two-dimensional array.\<close>

type_synonym image = "fl list list"

record plane =
  data_source :: data_source
  data :: image
  normal :: vec3
  center :: vec3
  width :: fl
  height :: fl
  east_vec :: "vec3 option"
  north_vec :: "vec3 option"
  to_worldview :: "mat4 option"

section \<open>\<^verbatim>\<open>BasePlane._set_plane\<close>\<close>

text \<open>Lines 39 to 55: the unit normal and the in-plane basis.\<close>

definition unit_normal :: "plane \<Rightarrow> vec3" where
  "unit_normal s = vdiv (normal s) (linalg_norm (normal s))"

definition resolve_basis :: "plane \<Rightarrow> error + (vec3 \<times> vec3 \<times> vec3)" where
  "resolve_basis s =
     (case unit_normal s of (u0, u1, u2) \<Rightarrow>
        if east_vec s = None \<or> north_vec s = None then
          if feq u0 (Fin 0) \<and> feq u1 (Fin 0) then
            Inr ((Fin 1, Fin 0, Fin 0), (Fin 0, Fin 1, Fin 0), (u0, u1, u2))
          else if feq u1 (Fin 0) \<and> feq u2 (Fin 0) then
            Inr ((Fin 0, Fin 1, Fin 0), (Fin 0, Fin 0, Fin 1), (u0, u1, u2))
          else if feq u0 (Fin 0) \<and> feq u2 (Fin 0) then
            Inr ((Fin 1, Fin 0, Fin 0), (Fin 0, Fin 0, Fin 1), (u0, u1, u2))
          else Inl NonAxisAlignedPlaneError
        else Inr (the (east_vec s), the (north_vec s), (u0, u1, u2)))"

text \<open>Lines 57 to 73: the combined matrix, before any correction.\<close>

definition combined_matrix :: "plane \<Rightarrow> vec3 \<Rightarrow> vec3 \<Rightarrow> vec3 \<Rightarrow> mat4" where
  "combined_matrix s e n u =
     matmul (translate_matrix (center s))
            (matmul (to_world_matrix e n u) (scale_matrix (width s) (height s)))"

text \<open>Lines 81 to 84: the additional translation of a cutting plane.\<close>

definition texture_centroid :: vec4 where
  "texture_centroid = (Fin (1/2), Fin (1/2), Fin 0, Fin 1)"

definition cutting_plane_correction :: "vec3 \<Rightarrow> mat4 \<Rightarrow> mat4" where
  "cutting_plane_correction c T =
     (let true_center = matvec T texture_centroid;
          extra_translate = translate_matrix (vsub c (take3 true_center))
      in matmul extra_translate T)"

text \<open>
  The matrix that \<^verbatim>\<open>_set_plane\<close> computes, or the exception it raises. The cast
  \<^verbatim>\<open>astype("f4")\<close> of line 86 rounds each entry to single precision; numbers are exact
  here, so it changes nothing.
\<close>

definition set_plane_matrix :: "plane \<Rightarrow> error + mat4" where
  "set_plane_matrix s =
     (case resolve_basis s of
        Inl err \<Rightarrow> Inl err
      | Inr (e, n, u) \<Rightarrow>
          let T = combined_matrix s e n u
          in if is_YTCuttingPlane (data_source s)
             then Inr (cutting_plane_correction (center s) T)
             else Inr T)"

text \<open>\<^verbatim>\<open>_set_plane\<close>: the object with \<^verbatim>\<open>to_worldview\<close> assigned, unless it raises.\<close>

definition set_plane :: "plane \<Rightarrow> error + plane" where
  "set_plane s =
     (case set_plane_matrix s of
        Inl err \<Rightarrow> Inl err
      | Inr T \<Rightarrow> Inr (s\<lparr>to_worldview := Some T\<rparr>))"

section \<open>\<^verbatim>\<open>PlaneData.add_data\<close>\<close>

text \<open>\<^verbatim>\<open>np.zeros((3,))\<close>, and the assignment \<^verbatim>\<open>v[i] = x\<close> with Python's indices \<open>-3\<close> to \<open>2\<close>.\<close>

definition zeros3 :: vec3 where
  "zeros3 = (Fin 0, Fin 0, Fin 0)"

fun set_item :: "vec3 \<Rightarrow> int \<Rightarrow> fl \<Rightarrow> error + vec3" where
  "set_item (v0, v1, v2) i x =
     (if i = 0 \<or> i = - 3 then Inr (x, v1, v2)
      else if i = 1 \<or> i = - 2 then Inr (v0, x, v2)
      else if i = 2 \<or> i = - 1 then Inr (v0, v1, x)
      else Inl IndexError)"

text \<open>
  Lines 138 to 158: the dispatch on the type of the data source. It gives the local
  variables \<^verbatim>\<open>normal\<close> and \<^verbatim>\<open>center\<close>, or raises; for a cutting plane it assigns
  \<^verbatim>\<open>self.north_vec\<close> and \<^verbatim>\<open>self.east_vec\<close> on the way.
\<close>

definition source_vectors :: "plane \<Rightarrow> (error + (vec3 \<times> vec3)) \<times> plane" where
  "source_vectors s =
     (case data_source s of
        YTSlice axis coord \<Rightarrow>
          (case set_item zeros3 axis (Fin 1) of
             Inl err \<Rightarrow> (Inl err, s)
           | Inr nrm \<Rightarrow>
               (case set_item zeros3 axis coord of
                  Inl err \<Rightarrow> (Inl err, s)
                | Inr c \<Rightarrow> (Inr (nrm, c), s)))
      | YTCuttingPlane north_vector normal_vector c \<Rightarrow>
          let north = vdiv north_vector (linalg_norm north_vector);
              nrm = vdiv normal_vector (linalg_norm normal_vector)
          in (Inr (nrm, c), s\<lparr>north_vec := Some north, east_vec := Some (cross nrm north)\<rparr>)
      | YTProj axis \<Rightarrow>
          (case set_item zeros3 axis (Fin 1) of
             Inl err \<Rightarrow> (Inl err, s)
           | Inr nrm \<Rightarrow>
               (case set_item zeros3 axis (Fin 1) of
                  Inl err \<Rightarrow> (Inl err, s)
                | Inr c \<Rightarrow> (Inr (nrm, c), s)))
      | OtherContainer \<Rightarrow> (Inl UnsupportedSourceKindError, s))"

text \<open>
  A call of a method either raises, leaving the object as it is at that moment, or
  returns.
\<close>

datatype outcome = Raised error plane | Returned plane

text \<open>
  Lines 135 to 166 of \<^verbatim>\<open>PlaneData.add_data\<close>, which set the fields of the object from
  the data source. \<open>frb_field\<close> is the image \<^verbatim>\<open>frb[field]\<close> that the data source's
  \<^verbatim>\<open>to_frb(width, resolution=frb_dims)\<close> gives for the field; the image is assigned to
  \<^verbatim>\<open>self.data\<close> before the dispatch.
\<close>

definition derive_spec :: "image \<Rightarrow> fl \<Rightarrow> fl \<Rightarrow> plane \<Rightarrow> outcome" where
  "derive_spec frb_field w translate s =
     (case source_vectors (s\<lparr>data := frb_field\<rparr>) of
        (Inl err, s1) \<Rightarrow> Raised err s1
      | (Inr (nrm, c), s1) \<Rightarrow>
          let c' = (if \<not> feq translate (Fin 0) then vadd c (smul translate nrm) else c)
          in Returned (s1\<lparr>center := c', normal := nrm, width := w, height := w\<rparr>))"

text \<open>
  The whole method: line 168 calls \<^verbatim>\<open>BasePlane.add_data\<close>, which calls
  \<^verbatim>\<open>_set_plane\<close> first; the vertex array and the texture it builds afterwards belong
  to the graphics library.
\<close>

definition add_data :: "image \<Rightarrow> fl \<Rightarrow> fl \<Rightarrow> plane \<Rightarrow> outcome" where
  "add_data frb_field w translate s =
     (case derive_spec frb_field w translate s of
        Raised err s1 \<Rightarrow> Raised err s1
      | Returned s1 \<Rightarrow>
          (case set_plane s1 of
             Inl err \<Rightarrow> Raised err s1
           | Inr s2 \<Rightarrow> Returned s2))"

section \<open>Notions of the specification\<close>

text \<open>Three vectors are mutually orthogonal unit vectors.\<close>

definition orthonormal3 :: "vec3 \<Rightarrow> vec3 \<Rightarrow> vec3 \<Rightarrow> bool" where
  "orthonormal3 a b c =
     (dot3 a a = Fin 1 \<and> dot3 b b = Fin 1 \<and> dot3 c c = Fin 1 \<and>
      dot3 a b = Fin 0 \<and> dot3 a c = Fin 0 \<and> dot3 b c = Fin 0)"

text \<open>
  The orientation of a triple: the determinant of the matrix with columns
  \<open>a\<close>, \<open>b\<close>, \<open>c\<close>. The triple is right-handed when it is positive.
\<close>

definition triple_product :: "vec3 \<Rightarrow> vec3 \<Rightarrow> vec3 \<Rightarrow> fl" where
  "triple_product a b c = dot3 (cross a b) c"

fun is_positive :: "fl \<Rightarrow> bool" where
  "is_positive (Fin a) = (0 < a)"
| "is_positive PInf = True"
| "is_positive x = False"

definition right_handed :: "vec3 \<Rightarrow> vec3 \<Rightarrow> vec3 \<Rightarrow> bool" where
  "right_handed a b c = is_positive (triple_product a b c)"

text \<open>How many components of a vector compare equal to zero.\<close>

fun zero_count :: "vec3 \<Rightarrow> nat" where
  "zero_count (x, y, z) =
     (if feq x (Fin 0) then 1 else 0) + (if feq y (Fin 0) then 1 else 0) +
     (if feq z (Fin 0) then 1 else 0)"



text \<open>The homogeneous point of a position.\<close>

fun homogeneous :: "vec3 \<Rightarrow> vec4" where
  "homogeneous (x, y, z) = (x, y, z, Fin 1)"

text \<open>The Euclidean length of a real vector, to state what a norm evaluates to.\<close>

definition euclid :: "real \<Rightarrow> real \<Rightarrow> real \<Rightarrow> real" where
  "euclid a b c = sqrt (a * a + b * b + c * c)"

text \<open>
  The coordinate axes, the vector with one component along an axis, and the fixed pair
  (east, north) that the specification documents for a normal along each axis.
\<close>

datatype axis = X_axis | Y_axis | Z_axis

fun along :: "axis \<Rightarrow> fl \<Rightarrow> vec3" where
  "along X_axis c = (c, Fin 0, Fin 0)"
| "along Y_axis c = (Fin 0, c, Fin 0)"
| "along Z_axis c = (Fin 0, Fin 0, c)"



section \<open>Example objects\<close>

text \<open>
  The slice of the specification's scenario: normal \<open>(0,0,1)\<close>, center \<open>(0,0,5)\<close>,
  width and height 2, no basis given.
\<close>

definition slice_example :: plane where
  "slice_example =
     \<lparr>data_source = YTSlice 2 (Fin 5), data = [],
      normal = (Fin 0, Fin 0, Fin 1), center = (Fin 0, Fin 0, Fin 5),
      width = Fin 2, height = Fin 2, east_vec = None, north_vec = None,
      to_worldview = None\<rparr>"


text \<open>
  A cutting plane: normal \<open>(1,0,0)\<close>, north \<open>(0,0,1)\<close>, east their cross product
  \<open>(0,-1,0)\<close>, center \<open>(3,3,3)\<close>, width and height 2.
\<close>

definition cutting_example :: plane where
  "cutting_example =
     \<lparr>data_source =
        YTCuttingPlane (Fin 0, Fin 0, Fin 1) (Fin 1, Fin 0, Fin 0) (Fin 3, Fin 3, Fin 3),
      data = [],
      normal = (Fin 1, Fin 0, Fin 0), center = (Fin 3, Fin 3, Fin 3),
      width = Fin 2, height = Fin 2,
      east_vec = Some (Fin 0, Fin (- 1), Fin 0), north_vec = Some (Fin 0, Fin 0, Fin 1),
      to_worldview = None\<rparr>"

text \<open>A plane whose normal is the zero vector, with a basis given.\<close>

definition degenerate_example :: plane where
  "degenerate_example =
     \<lparr>data_source = OtherContainer, data = [],
      normal = (Fin 0, Fin 0, Fin 0), center = (Fin 0, Fin 0, Fin 0),
      width = Fin 1, height = Fin 1,
      east_vec = Some (Fin 1, Fin 0, Fin 0), north_vec = Some (Fin 0, Fin 1, Fin 0),
      to_worldview = None\<rparr>"

definition nan_matrix :: mat4 where
  "nan_matrix =
     ((NaN, NaN, NaN, NaN), (NaN, NaN, NaN, NaN),
      (NaN, NaN, NaN, NaN), (NaN, NaN, NaN, NaN))"

text \<open>A plane with no basis whose normal \<open>(1,1,0)\<close> is not along an axis.\<close>

definition oblique_example :: plane where
  "oblique_example =
     \<lparr>data_source = OtherContainer, data = [],
      normal = (Fin 1, Fin 1, Fin 0), center = (Fin 0, Fin 0, Fin 0),
      width = Fin 1, height = Fin 1, east_vec = None, north_vec = None,
      to_worldview = None\<rparr>"

text \<open>
  Objects before \<^verbatim>\<open>add_data\<close> is called: nothing assigned yet but the data source,
  an empty image, and zeros in the numeric fields.
\<close>

definition fresh :: "data_source \<Rightarrow> plane" where
  "fresh src =
     \<lparr>data_source = src, data = [],
      normal = zeros3, center = zeros3, width = Fin 0, height = Fin 0,
      east_vec = None, north_vec = None, to_worldview = None\<rparr>"

text \<open>The data source of the cutting plane example.\<close>

definition cutting_source :: data_source where
  "cutting_source =
     YTCuttingPlane (Fin 0, Fin 0, Fin 1) (Fin 1, Fin 0, Fin 0) (Fin 3, Fin 3, Fin 3)"

definition some_image :: image where
  "some_image = [Fin 1, Fin 2] # [Fin 3, Fin 4] # []"

section \<open>Arithmetic of finite numbers\<close>

lemma fin_minus [simp]: "Fin a - Fin b = Fin (a - b)"
  by (simp add: minus_fl_def)

lemma finite_cases: "is_finite x \<Longrightarrow> \<exists>a. x = Fin a"
  by (cases x) auto

lemma finite3_cases: "finite3 v \<Longrightarrow> \<exists>a b c. v = (Fin a, Fin b, Fin c)"
  by (cases v) (auto dest: finite_cases)

lemma euclid_pos: "a \<noteq> 0 \<or> b \<noteq> 0 \<or> c \<noteq> 0 \<Longrightarrow> 0 < euclid a b c"
proof -
  assume nz: "a \<noteq> 0 \<or> b \<noteq> 0 \<or> c \<noteq> 0"
  have "0 \<le> a * a" "0 \<le> b * b" "0 \<le> c * c" by simp_all
  moreover have "0 < a * a \<or> 0 < b * b \<or> 0 < c * c"
    using nz by (auto simp: zero_less_mult_iff)
  ultimately have "0 < a * a + b * b + c * c" by linarith
  then show ?thesis by (simp add: euclid_def)
qed

lemma euclid_square: "euclid a b c * euclid a b c = a * a + b * b + c * c"
proof -
  have "0 \<le> a * a + b * b + c * c"
    by (intro add_nonneg_nonneg) simp_all
  then show ?thesis by (simp add: euclid_def)
qed

lemma euclid_axis [simp]:
  "euclid 0 0 c = \<bar>c\<bar>" "euclid c 0 0 = \<bar>c\<bar>" "euclid 0 c 0 = \<bar>c\<bar>"
  by (simp_all add: euclid_def)

lemma linalg_norm_fin: "linalg_norm (Fin a, Fin b, Fin c) = Fin (euclid a b c)"
proof -
  have "0 \<le> a * a + b * b + c * c"
    by (intro add_nonneg_nonneg) simp_all
  then show ?thesis by (simp add: linalg_norm_def euclid_def not_less)
qed

lemma normalise_fin:
  assumes "a \<noteq> 0 \<or> b \<noteq> 0 \<or> c \<noteq> 0"
  shows "vdiv (Fin a, Fin b, Fin c) (linalg_norm (Fin a, Fin b, Fin c)) =
         (Fin (a / euclid a b c), Fin (b / euclid a b c), Fin (c / euclid a b c))"
  using euclid_pos [OF assms] by (simp add: linalg_norm_fin)


lemma unit_sum_squares:
  assumes "a \<noteq> 0 \<or> b \<noteq> 0 \<or> c \<noteq> 0"
  shows "(a / euclid a b c) * (a / euclid a b c) + (b / euclid a b c) * (b / euclid a b c) +
         (c / euclid a b c) * (c / euclid a b c) = 1"
proof -
  let ?r = "euclid a b c"
  have r: "?r \<noteq> 0" using euclid_pos [OF assms] by simp
  have "(a / ?r) * (a / ?r) + (b / ?r) * (b / ?r) + (c / ?r) * (c / ?r) =
        (a * a + b * b + c * c) / (?r * ?r)"
    by (simp add: add_divide_distrib)
  also have "\<dots> = 1" using r by (simp add: euclid_square [symmetric])
  finally show ?thesis .
qed


section \<open>The cross product of two orthogonal unit vectors\<close>

lemma cross_length:
  fixes p0 p1 p2 q0 q1 q2 :: real
  assumes pp: "p0 * p0 + p1 * p1 + p2 * p2 = 1"
    and qq: "q0 * q0 + q1 * q1 + q2 * q2 = 1"
    and pq: "p0 * q0 + p1 * q1 + p2 * q2 = 0"
  shows "(p1 * q2 - p2 * q1) * (p1 * q2 - p2 * q1) +
         (p2 * q0 - p0 * q2) * (p2 * q0 - p0 * q2) +
         (p0 * q1 - p1 * q0) * (p0 * q1 - p1 * q0) = 1"
proof -
  have "(p1 * q2 - p2 * q1) * (p1 * q2 - p2 * q1) +
         (p2 * q0 - p0 * q2) * (p2 * q0 - p0 * q2) +
         (p0 * q1 - p1 * q0) * (p0 * q1 - p1 * q0) =
        (p0 * p0 + p1 * p1 + p2 * p2) * (q0 * q0 + q1 * q1 + q2 * q2) -
        (p0 * q0 + p1 * q1 + p2 * q2) * (p0 * q0 + p1 * q1 + p2 * q2)"
    by (simp add: algebra_simps)
  then show ?thesis by (simp add: pp qq pq)
qed

lemma cross_triple:
  fixes p0 p1 p2 q0 q1 q2 :: real
  assumes pp: "p0 * p0 + p1 * p1 + p2 * p2 = 1"
    and qq: "q0 * q0 + q1 * q1 + q2 * q2 = 1"
    and pq: "p0 * q0 + p1 * q1 + p2 * q2 = 0"
  shows "((p2 * q0 - p0 * q2) * q2 - (p0 * q1 - p1 * q0) * q1) * p0 +
         ((p0 * q1 - p1 * q0) * q0 - (p1 * q2 - p2 * q1) * q2) * p1 +
         ((p1 * q2 - p2 * q1) * q1 - (p2 * q0 - p0 * q2) * q0) * p2 = - 1"
proof -
  have "((p2 * q0 - p0 * q2) * q2 - (p0 * q1 - p1 * q0) * q1) * p0 +
         ((p0 * q1 - p1 * q0) * q0 - (p1 * q2 - p2 * q1) * q2) * p1 +
         ((p1 * q2 - p2 * q1) * q1 - (p2 * q0 - p0 * q2) * q0) * p2 =
        (p0 * q0 + p1 * q1 + p2 * q2) * (p0 * q0 + p1 * q1 + p2 * q2) -
        (p0 * p0 + p1 * p1 + p2 * p2) * (q0 * q0 + q1 * q1 + q2 * q2)"
    by (simp add: algebra_simps)
  then show ?thesis by (simp add: pp qq pq)
qed

lemma cross_frame:
  assumes pp: "p0 * p0 + p1 * p1 + p2 * p2 = 1"
    and qq: "q0 * q0 + q1 * q1 + q2 * q2 = 1"
    and pq: "p0 * q0 + p1 * q1 + p2 * q2 = 0"
  shows "orthonormal3 (cross (Fin p0, Fin p1, Fin p2) (Fin q0, Fin q1, Fin q2))
           (Fin q0, Fin q1, Fin q2) (Fin p0, Fin p1, Fin p2) \<and>
         triple_product (cross (Fin p0, Fin p1, Fin p2) (Fin q0, Fin q1, Fin q2))
           (Fin q0, Fin q1, Fin q2) (Fin p0, Fin p1, Fin p2) = Fin (- 1) \<and>
         \<not> right_handed (cross (Fin p0, Fin p1, Fin p2) (Fin q0, Fin q1, Fin q2))
           (Fin q0, Fin q1, Fin q2) (Fin p0, Fin p1, Fin p2) \<and>
         right_handed (Fin p0, Fin p1, Fin p2) (Fin q0, Fin q1, Fin q2)
           (cross (Fin p0, Fin p1, Fin p2) (Fin q0, Fin q1, Fin q2))"
proof -
  note len = cross_length [OF pp qq pq]
  note tri = cross_triple [OF pp qq pq]
  have eq: "(p1 * q2 - p2 * q1) * q0 + (p2 * q0 - p0 * q2) * q1 + (p0 * q1 - p1 * q0) * q2 = 0"
    by (simp add: algebra_simps)
  have ep: "(p1 * q2 - p2 * q1) * p0 + (p2 * q0 - p0 * q2) * p1 + (p0 * q1 - p1 * q0) * p2 = 0"
    by (simp add: algebra_simps)
  have qp: "q0 * p0 + q1 * p1 + q2 * p2 = 0"
    using pq by (simp add: mult.commute)
  show ?thesis
    by (simp add: orthonormal3_def triple_product_def right_handed_def
          len tri eq ep qp pp qq)
qed

section \<open>The matrices of \<^verbatim>\<open>_set_plane\<close> on finite numbers\<close>

lemma combined_fin:
  assumes "center s = (Fin c0, Fin c1, Fin c2)" "width s = Fin w" "height s = Fin h"
  shows "combined_matrix s (Fin e0, Fin e1, Fin e2) (Fin n0, Fin n1, Fin n2)
           (Fin u0, Fin u1, Fin u2) =
     ((Fin (w * e0), Fin (h * n0), Fin u0, Fin c0),
      (Fin (w * e1), Fin (h * n1), Fin u1, Fin c1),
      (Fin (w * e2), Fin (h * n2), Fin u2, Fin c2),
      (Fin 0, Fin 0, Fin 0, Fin 1))"
  using assms by (simp add: combined_matrix_def scale_matrix_def mult.commute)

lemma correction_fin:
  "cutting_plane_correction (Fin c0, Fin c1, Fin c2)
     ((Fin a0, Fin b0, Fin u0, Fin c0),
      (Fin a1, Fin b1, Fin u1, Fin c1),
      (Fin a2, Fin b2, Fin u2, Fin c2),
      (Fin 0, Fin 0, Fin 0, Fin 1)) =
     ((Fin a0, Fin b0, Fin u0, Fin (c0 - (a0 + b0) / 2)),
      (Fin a1, Fin b1, Fin u1, Fin (c1 - (a1 + b1) / 2)),
      (Fin a2, Fin b2, Fin u2, Fin (c2 - (a2 + b2) / 2)),
      (Fin 0, Fin 0, Fin 0, Fin 1))"
  by (simp add: cutting_plane_correction_def texture_centroid_def Let_def field_simps)

lemma combined_maps:
  assumes "center s = (Fin c0, Fin c1, Fin c2)" "width s = Fin w" "height s = Fin h"
  shows "matvec (combined_matrix s (Fin e0, Fin e1, Fin e2) (Fin n0, Fin n1, Fin n2)
                   (Fin u0, Fin u1, Fin u2)) (Fin a, Fin b, Fin 0, Fin 1) =
         homogeneous (vadd (center s)
           (vadd (smul (Fin a * width s) (Fin e0, Fin e1, Fin e2))
                 (smul (Fin b * height s) (Fin n0, Fin n1, Fin n2))))"
  unfolding combined_fin [OF assms] by (simp add: assms algebra_simps)

lemma set_plane_matrix_resolved:
  "resolve_basis s = Inr (e, n, u) \<Longrightarrow>
   set_plane_matrix s =
     Inr (if is_YTCuttingPlane (data_source s)
          then cutting_plane_correction (center s) (combined_matrix s e n u)
          else combined_matrix s e n u)"
  by (simp add: set_plane_matrix_def Let_def)


lemma finite_fields:
  assumes "finite3 e" "finite3 n" "finite3 u" "finite3 (center s)"
    "is_finite (width s)" "is_finite (height s)"
  obtains e0 e1 e2 n0 n1 n2 u0 u1 u2 c0 c1 c2 w h where
    "e = (Fin e0, Fin e1, Fin e2)" "n = (Fin n0, Fin n1, Fin n2)"
    "u = (Fin u0, Fin u1, Fin u2)" "center s = (Fin c0, Fin c1, Fin c2)"
    "width s = Fin w" "height s = Fin h"
  using assms by (metis finite3_cases finite_cases)

lemma uncorrected_matrix:
  assumes "resolve_basis s = Inr ((Fin e0, Fin e1, Fin e2), (Fin n0, Fin n1, Fin n2),
                                   (Fin u0, Fin u1, Fin u2))"
    and "center s = (Fin c0, Fin c1, Fin c2)" "width s = Fin w" "height s = Fin h"
    and "\<not> is_YTCuttingPlane (data_source s)"
  shows "set_plane_matrix s =
       Inr ((Fin (w * e0), Fin (h * n0), Fin u0, Fin c0),
            (Fin (w * e1), Fin (h * n1), Fin u1, Fin c1),
            (Fin (w * e2), Fin (h * n2), Fin u2, Fin c2),
            (Fin 0, Fin 0, Fin 0, Fin 1))"
  using set_plane_matrix_resolved [OF assms(1)] assms(5)
  unfolding combined_fin [OF assms(2-4)] by simp

lemma corrected_matrix:
  assumes "resolve_basis s = Inr ((Fin e0, Fin e1, Fin e2), (Fin n0, Fin n1, Fin n2),
                                   (Fin u0, Fin u1, Fin u2))"
    and "center s = (Fin c0, Fin c1, Fin c2)" "width s = Fin w" "height s = Fin h"
    and "is_YTCuttingPlane (data_source s)"
  shows "set_plane_matrix s =
       Inr ((Fin (w * e0), Fin (h * n0), Fin u0, Fin (c0 - (w * e0 + h * n0) / 2)),
            (Fin (w * e1), Fin (h * n1), Fin u1, Fin (c1 - (w * e1 + h * n1) / 2)),
            (Fin (w * e2), Fin (h * n2), Fin u2, Fin (c2 - (w * e2 + h * n2) / 2)),
            (Fin 0, Fin 0, Fin 0, Fin 1))"
  using set_plane_matrix_resolved [OF assms(1)] assms(5)
  unfolding combined_fin [OF assms(2-4)] assms(2) correction_fin by simp

section \<open>What \<^verbatim>\<open>add_data\<close> leaves in the object\<close>

lemma set_item_one:
  "set_item zeros3 i (Fin 1) = Inr v \<Longrightarrow> \<exists>ax. v = along ax (Fin 1)"
proof -
  assume "set_item zeros3 i (Fin 1) = Inr v"
  then have "v = along X_axis (Fin 1) \<or> v = along Y_axis (Fin 1) \<or> v = along Z_axis (Fin 1)"
    by (simp add: zeros3_def split: if_splits)
  then show ?thesis by blast
qed

lemma source_vectors_normal_or_basis:
  assumes "source_vectors s = (Inr (nrm, c), s1)"
  shows "(\<exists>ax. nrm = along ax (Fin 1)) \<or> (east_vec s1 \<noteq> None \<and> north_vec s1 \<noteq> None)"
proof (cases "data_source s")
  case (YTSlice i coord)
  with assms have "set_item zeros3 i (Fin 1) = Inr nrm"
    by (simp add: source_vectors_def split: sum.splits)
  then show ?thesis by (blast dest: set_item_one)
next
  case (YTCuttingPlane north_vector normal_vector c')
  with assms have "east_vec s1 \<noteq> None \<and> north_vec s1 \<noteq> None"
    by (auto simp: source_vectors_def Let_def simp del: not_None_eq)
  then show ?thesis ..
next
  case (YTProj i)
  with assms have "set_item zeros3 i (Fin 1) = Inr nrm"
    by (simp add: source_vectors_def split: sum.splits)
  then show ?thesis by (blast dest: set_item_one)
next
  case OtherContainer
  with assms show ?thesis
    by (simp add: source_vectors_def)
qed

lemma derived_normal_or_basis:
  assumes "derive_spec f w t s = Returned s'"
  shows "(\<exists>ax. normal s' = along ax (Fin 1)) \<or> (east_vec s' \<noteq> None \<and> north_vec s' \<noteq> None)"
proof -
  obtain r s1 where sv: "source_vectors (s\<lparr>data := f\<rparr>) = (r, s1)"
    by (cases "source_vectors (s\<lparr>data := f\<rparr>)") auto
  with assms obtain nrm c where r: "r = Inr (nrm, c)"
    by (cases r) (auto simp: derive_spec_def)
  from assms have "normal s' = nrm" "east_vec s' = east_vec s1" "north_vec s' = north_vec s1"
    by (auto simp: derive_spec_def sv r Let_def)
  with source_vectors_normal_or_basis [OF sv [unfolded r]] show ?thesis
    by (simp del: not_None_eq)
qed

lemma axis_normal_resolves:
  assumes "normal s = along ax (Fin 1)"
  shows "\<exists>e n u. resolve_basis s = Inr (e, n, u)"
proof -
  have "unit_normal s = along ax (Fin 1)"
    unfolding unit_normal_def assms by (cases ax) (simp_all add: linalg_norm_fin)
  then show ?thesis
    by (cases ax) (simp_all add: resolve_basis_def del: split_paired_Ex)
qed

lemma explicit_basis_resolves:
  assumes "east_vec s \<noteq> None \<and> north_vec s \<noteq> None"
  shows "\<exists>e n u. resolve_basis s = Inr (e, n, u)"
  using assms
  by (cases "unit_normal s") (simp add: resolve_basis_def del: split_paired_Ex not_None_eq)

section \<open>The example objects\<close>

lemma slice_example_basis:
  "resolve_basis slice_example =
     Inr ((Fin 1, Fin 0, Fin 0), (Fin 0, Fin 1, Fin 0), (Fin 0, Fin 0, Fin 1))"
  by (simp add: resolve_basis_def unit_normal_def slice_example_def linalg_norm_def)


lemma cutting_example_basis:
  "resolve_basis cutting_example =
     Inr ((Fin 0, Fin (- 1), Fin 0), (Fin 0, Fin 0, Fin 1), (Fin 1, Fin 0, Fin 0))"
  by (simp add: resolve_basis_def unit_normal_def cutting_example_def linalg_norm_def)

lemma degenerate_example_unit: "unit_normal degenerate_example = (NaN, NaN, NaN)"
  by (simp add: unit_normal_def degenerate_example_def linalg_norm_def signed_inf_def)

lemma degenerate_example_basis:
  "resolve_basis degenerate_example =
     Inr ((Fin 1, Fin 0, Fin 0), (Fin 0, Fin 1, Fin 0), (NaN, NaN, NaN))"
  by (simp add: resolve_basis_def degenerate_example_unit) (simp add: degenerate_example_def)

lemma degenerate_example_matrix: "set_plane_matrix degenerate_example = Inr nan_matrix"
  unfolding nan_matrix_def
  by (simp add: set_plane_matrix_def degenerate_example_basis combined_matrix_def
        scale_matrix_def)
     (simp add: degenerate_example_def)

lemma oblique_example_unit:
  "unit_normal oblique_example = (Fin (1 / sqrt 2), Fin (1 / sqrt 2), Fin 0)"
  by (simp add: unit_normal_def oblique_example_def linalg_norm_def)

section \<open>The claims\<close>









text \<open>
  C4. With no basis given (one of \<^verbatim>\<open>east_vec\<close>, \<^verbatim>\<open>north_vec\<close> is \<^verbatim>\<open>None\<close>) and
  fewer than two components of the unit normal equal to zero, \<^verbatim>\<open>_set_plane\<close> raises
  the error for a plane not normal to an axis: no matrix is returned and the object is
  not changed.
\<close>

theorem oblique_normal_raises:
  assumes "east_vec s = None \<or> north_vec s = None"
    and "zero_count (unit_normal s) < 2"
  shows "resolve_basis s = Inl NonAxisAlignedPlaneError \<and>
         set_plane_matrix s = Inl NonAxisAlignedPlaneError \<and>
         set_plane s = Inl NonAxisAlignedPlaneError"
proof -
  obtain u0 u1 u2 where u: "unit_normal s = (u0, u1, u2)"
    by (cases "unit_normal s") auto
  have "resolve_basis s = Inl NonAxisAlignedPlaneError"
    using assms unfolding resolve_basis_def u
    by (auto split: if_splits)
  then show ?thesis
    by (simp add: set_plane_matrix_def set_plane_def)
qed

theorem oblique_normal_raises_witness:
  "(east_vec oblique_example = None \<or> north_vec oblique_example = None) \<and>
   zero_count (unit_normal oblique_example) < 2 \<and>
   resolve_basis oblique_example = Inl NonAxisAlignedPlaneError \<and>
   set_plane_matrix oblique_example = Inl NonAxisAlignedPlaneError \<and>
   set_plane oblique_example = Inl NonAxisAlignedPlaneError"
proof -
  have b: "east_vec oblique_example = None \<or> north_vec oblique_example = None"
    by (simp add: oblique_example_def)
  have z: "zero_count (unit_normal oblique_example) < 2"
    by (simp add: oblique_example_unit)
  from oblique_normal_raises [OF b z] show ?thesis
    using b z by simp
qed



text \<open>
  C6. With a finite resolved basis, center, width and height, the matrix of
  \<^verbatim>\<open>_set_plane\<close> is translate * (to_world * scale), with the cutting-plane correction
  applied to it for a cutting plane; the three factors are the diagonal matrix of
  (width, height, 1, 1), the matrix with columns east, north, unit normal, (0,0,0,1), and
  the identity with the center as its last column. Before the correction the product maps
  \<open>(a, b, 0, 1)\<close> to center + a * width * east + b * height * north.
\<close>

theorem transform_composition:
  assumes basis: "resolve_basis s = Inr (e, n, u)"
    and fin: "finite3 e" "finite3 n" "finite3 u" "finite3 (center s)"
      "is_finite (width s)" "is_finite (height s)"
  shows "set_plane_matrix s =
           Inr (let T = matmul (translate_matrix (center s))
                          (matmul (to_world_matrix e n u) (scale_matrix (width s) (height s)))
                in if is_YTCuttingPlane (data_source s)
                   then cutting_plane_correction (center s) T else T) \<and>
         (\<forall>a b. matvec (matmul (translate_matrix (center s))
                          (matmul (to_world_matrix e n u) (scale_matrix (width s) (height s))))
                   (Fin a, Fin b, Fin 0, Fin 1) =
                 homogeneous (vadd (center s)
                   (vadd (smul (Fin a * width s) e) (smul (Fin b * height s) n))))"
proof -
  from fin obtain e0 e1 e2 n0 n1 n2 u0 u1 u2 c0 c1 c2 w h where
    eq: "e = (Fin e0, Fin e1, Fin e2)" "n = (Fin n0, Fin n1, Fin n2)"
      "u = (Fin u0, Fin u1, Fin u2)" "center s = (Fin c0, Fin c1, Fin c2)"
      "width s = Fin w" "height s = Fin h"
    by (rule finite_fields)
  have "set_plane_matrix s =
           Inr (let T = matmul (translate_matrix (center s))
                          (matmul (to_world_matrix e n u) (scale_matrix (width s) (height s)))
                in if is_YTCuttingPlane (data_source s)
                   then cutting_plane_correction (center s) T else T)"
    using set_plane_matrix_resolved [OF basis] by (simp add: combined_matrix_def Let_def)
  moreover have "matvec (matmul (translate_matrix (center s))
                          (matmul (to_world_matrix e n u) (scale_matrix (width s) (height s))))
                   (Fin a, Fin b, Fin 0, Fin 1) =
                 homogeneous (vadd (center s)
                   (vadd (smul (Fin a * width s) e) (smul (Fin b * height s) n)))" for a b
    using combined_maps [OF eq(4-6), of e0 e1 e2 n0 n1 n2 u0 u1 u2 a b]
    unfolding eq(1-3) combined_matrix_def .
  ultimately show ?thesis by blast
qed

text \<open>
  The witness: the cutting plane example, whose uncorrected product is written out and
  maps \<open>(1/2, 1, 0, 1)\<close> to \<open>(3, 3 - 1, 3 + 2)\<close>.
\<close>

theorem transform_composition_witness:
  "resolve_basis cutting_example =
     Inr ((Fin 0, Fin (- 1), Fin 0), (Fin 0, Fin 0, Fin 1), (Fin 1, Fin 0, Fin 0)) \<and>
   matmul (translate_matrix (center cutting_example))
     (matmul (to_world_matrix (Fin 0, Fin (- 1), Fin 0) (Fin 0, Fin 0, Fin 1)
                (Fin 1, Fin 0, Fin 0))
        (scale_matrix (width cutting_example) (height cutting_example))) =
     ((Fin 0, Fin 0, Fin 1, Fin 3),
      (Fin (- 2), Fin 0, Fin 0, Fin 3),
      (Fin 0, Fin 2, Fin 0, Fin 3),
      (Fin 0, Fin 0, Fin 0, Fin 1)) \<and>
   set_plane_matrix cutting_example =
     Inr (cutting_plane_correction (Fin 3, Fin 3, Fin 3)
            ((Fin 0, Fin 0, Fin 1, Fin 3),
             (Fin (- 2), Fin 0, Fin 0, Fin 3),
             (Fin 0, Fin 2, Fin 0, Fin 3),
             (Fin 0, Fin 0, Fin 0, Fin 1))) \<and>
   matvec ((Fin 0, Fin 0, Fin 1, Fin 3),
           (Fin (- 2), Fin 0, Fin 0, Fin 3),
           (Fin 0, Fin 2, Fin 0, Fin 3),
           (Fin 0, Fin 0, Fin 0, Fin 1)) (Fin (1/2), Fin 1, Fin 0, Fin 1) =
     (Fin 3, Fin 2, Fin 5, Fin 1)"
proof -
  have cut: "is_YTCuttingPlane (data_source cutting_example)"
    by (simp add: cutting_example_def)
  have c: "center cutting_example = (Fin 3, Fin 3, Fin 3)"
    and w: "width cutting_example = Fin 2" and h: "height cutting_example = Fin 2"
    by (simp_all add: cutting_example_def)
  have fin: "finite3 (Fin 0, Fin (- 1), Fin 0)" "finite3 (Fin 0, Fin 0, Fin 1)"
    "finite3 (Fin 1, Fin 0, Fin 0)" "finite3 (center cutting_example)"
    "is_finite (width cutting_example)" "is_finite (height cutting_example)"
    by (simp_all add: c w h)
  have M: "matmul (translate_matrix (Fin 3, Fin 3, Fin 3))
     (matmul (to_world_matrix (Fin 0, Fin (- 1), Fin 0) (Fin 0, Fin 0, Fin 1)
                (Fin 1, Fin 0, Fin 0))
        (scale_matrix (Fin 2) (Fin 2))) =
     ((Fin 0, Fin 0, Fin 1, Fin 3),
      (Fin (- 2), Fin 0, Fin 0, Fin 3),
      (Fin 0, Fin 2, Fin 0, Fin 3),
      (Fin 0, Fin 0, Fin 0, Fin 1))"
    by (simp add: scale_matrix_def)
  from transform_composition [OF cutting_example_basis fin]
  have "set_plane_matrix cutting_example =
     Inr (cutting_plane_correction (Fin 3, Fin 3, Fin 3)
            ((Fin 0, Fin 0, Fin 1, Fin 3),
             (Fin (- 2), Fin 0, Fin 0, Fin 3),
             (Fin 0, Fin 2, Fin 0, Fin 3),
             (Fin 0, Fin 0, Fin 0, Fin 1)))"
    unfolding c w h M using cut by (simp add: Let_def)
  moreover have "matvec ((Fin 0, Fin 0, Fin 1, Fin 3),
           (Fin (- 2), Fin 0, Fin 0, Fin 3),
           (Fin 0, Fin 2, Fin 0, Fin 3),
           (Fin 0, Fin 0, Fin 0, Fin 1)) (Fin (1/2), Fin 1, Fin 0, Fin 1) =
     (Fin 3, Fin 2, Fin 5, Fin 1)"
    by simp
  ultimately show ?thesis
    using cutting_example_basis M by (simp add: c w h)
qed

text \<open>
  C7, as stated, fails: for the source normal \<open>(1,0,0)\<close> and north \<open>(0,0,1)\<close>, which
  are orthogonal unit vectors, the east vector is normal x north = \<open>(0,-1,0)\<close>, and the
  triple (east, north, normal) has determinant \<open>-1\<close>: it is left-handed.
\<close>

theorem cutting_plane_handedness_counterexample:
  "data_source (fresh cutting_source) = cutting_source \<and>
   dot3 (Fin 0, Fin 0, Fin 1) (Fin 1, Fin 0, Fin 0) = Fin 0 \<and>
   derive_spec some_image (Fin 2) (Fin 0) (fresh cutting_source) =
     Returned (cutting_example\<lparr>data := some_image\<rparr>) \<and>
   normal (cutting_example\<lparr>data := some_image\<rparr>) = (Fin 1, Fin 0, Fin 0) \<and>
   north_vec (cutting_example\<lparr>data := some_image\<rparr>) = Some (Fin 0, Fin 0, Fin 1) \<and>
   east_vec (cutting_example\<lparr>data := some_image\<rparr>) = Some (Fin 0, Fin (- 1), Fin 0) \<and>
   triple_product (Fin 0, Fin (- 1), Fin 0) (Fin 0, Fin 0, Fin 1) (Fin 1, Fin 0, Fin 0) =
     Fin (- 1) \<and>
   \<not> right_handed (Fin 0, Fin (- 1), Fin 0) (Fin 0, Fin 0, Fin 1) (Fin 1, Fin 0, Fin 0)"
proof -
  have "derive_spec some_image (Fin 2) (Fin 0) (fresh cutting_source) =
     Returned (cutting_example\<lparr>data := some_image\<rparr>)"
    by (simp add: derive_spec_def source_vectors_def fresh_def cutting_source_def
          cutting_example_def linalg_norm_def Let_def)
  then show ?thesis
    by (simp add: triple_product_def right_handed_def)
       (simp add: fresh_def cutting_example_def)
qed

text \<open>
  C7, amended. For a cutting plane whose source normal and north vectors are finite, not
  zero and orthogonal, \<^verbatim>\<open>add_data\<close> sets normal and north to the source's vectors
  divided by their norms and east to normal x north; east, north and normal are mutually
  orthogonal unit vectors; the triple (east, north, normal) has determinant \<open>-1\<close>, so it
  is left-handed, and the triple (normal, north, east) is right-handed.
\<close>

theorem cutting_plane_basis_orthonormal:
  assumes src: "data_source s =
      YTCuttingPlane (Fin b0, Fin b1, Fin b2) (Fin a0, Fin a1, Fin a2) c"
    and nza: "a0 \<noteq> 0 \<or> a1 \<noteq> 0 \<or> a2 \<noteq> 0"
    and nzb: "b0 \<noteq> 0 \<or> b1 \<noteq> 0 \<or> b2 \<noteq> 0"
    and orth: "a0 * b0 + a1 * b1 + a2 * b2 = 0"
    and p: "p = (Fin (a0 / euclid a0 a1 a2), Fin (a1 / euclid a0 a1 a2),
                 Fin (a2 / euclid a0 a1 a2))"
    and q: "q = (Fin (b0 / euclid b0 b1 b2), Fin (b1 / euclid b0 b1 b2),
                 Fin (b2 / euclid b0 b1 b2))"
  shows "\<exists>s'. derive_spec f w t s = Returned s' \<and>
           normal s' = p \<and> north_vec s' = Some q \<and> east_vec s' = Some (cross p q) \<and>
           orthonormal3 (cross p q) q p \<and>
           triple_product (cross p q) q p = Fin (- 1) \<and>
           \<not> right_handed (cross p q) q p \<and>
           right_handed p q (cross p q)"
proof -
  let ?ra = "euclid a0 a1 a2" and ?rb = "euclid b0 b1 b2"
  have sv: "source_vectors (s\<lparr>data := f\<rparr>) =
      (Inr (p, c), s\<lparr>data := f, north_vec := Some q, east_vec := Some (cross p q)\<rparr>)"
    unfolding source_vectors_def p q
    by (simp add: src Let_def normalise_fin [OF nza] normalise_fin [OF nzb]
          del: vdiv.simps cross.simps)
  have derive: "\<exists>s'. derive_spec f w t s = Returned s' \<and>
           normal s' = p \<and> north_vec s' = Some q \<and> east_vec s' = Some (cross p q)"
    unfolding derive_spec_def sv by (simp add: Let_def)
  have pp: "(a0 / ?ra) * (a0 / ?ra) + (a1 / ?ra) * (a1 / ?ra) + (a2 / ?ra) * (a2 / ?ra) = 1"
    by (rule unit_sum_squares [OF nza])
  have qq: "(b0 / ?rb) * (b0 / ?rb) + (b1 / ?rb) * (b1 / ?rb) + (b2 / ?rb) * (b2 / ?rb) = 1"
    by (rule unit_sum_squares [OF nzb])
  have "(a0 / ?ra) * (b0 / ?rb) + (a1 / ?ra) * (b1 / ?rb) + (a2 / ?ra) * (b2 / ?rb) =
        (a0 * b0 + a1 * b1 + a2 * b2) / (?ra * ?rb)"
    by (simp add: add_divide_distrib)
  then have pq: "(a0 / ?ra) * (b0 / ?rb) + (a1 / ?ra) * (b1 / ?rb) + (a2 / ?ra) * (b2 / ?rb) = 0"
    by (simp add: orth)
  note frame = cross_frame [OF pp qq pq]
  from derive frame show ?thesis
    unfolding p q by blast
qed

text \<open>
  The witness: source normal \<open>(2,0,0)\<close> and north \<open>(0,0,3)\<close>, which give normal
  \<open>(1,0,0)\<close>, north \<open>(0,0,1)\<close> and east \<open>(0,-1,0)\<close>.
\<close>

theorem cutting_plane_basis_witness:
  "data_source (fresh (YTCuttingPlane (Fin 0, Fin 0, Fin 3) (Fin 2, Fin 0, Fin 0)
      (Fin 3, Fin 3, Fin 3))) =
     YTCuttingPlane (Fin 0, Fin 0, Fin 3) (Fin 2, Fin 0, Fin 0) (Fin 3, Fin 3, Fin 3) \<and>
   (\<exists>s'. derive_spec some_image (Fin 2) (Fin 0)
           (fresh (YTCuttingPlane (Fin 0, Fin 0, Fin 3) (Fin 2, Fin 0, Fin 0)
              (Fin 3, Fin 3, Fin 3))) = Returned s' \<and>
         normal s' = (Fin 1, Fin 0, Fin 0) \<and>
         north_vec s' = Some (Fin 0, Fin 0, Fin 1) \<and>
         east_vec s' = Some (Fin 0, Fin (- 1), Fin 0) \<and>
         orthonormal3 (Fin 0, Fin (- 1), Fin 0) (Fin 0, Fin 0, Fin 1) (Fin 1, Fin 0, Fin 0) \<and>
         triple_product (Fin 0, Fin (- 1), Fin 0) (Fin 0, Fin 0, Fin 1) (Fin 1, Fin 0, Fin 0) =
           Fin (- 1) \<and>
         right_handed (Fin 1, Fin 0, Fin 0) (Fin 0, Fin 0, Fin 1) (Fin 0, Fin (- 1), Fin 0))"
proof -
  let ?s = "fresh (YTCuttingPlane (Fin 0, Fin 0, Fin 3) (Fin 2, Fin 0, Fin 0)
      (Fin 3, Fin 3, Fin 3))"
  have src: "data_source ?s =
     YTCuttingPlane (Fin 0, Fin 0, Fin 3) (Fin 2, Fin 0, Fin 0) (Fin 3, Fin 3, Fin 3)"
    by (simp add: fresh_def)
  have nza: "(2::real) \<noteq> 0 \<or> (0::real) \<noteq> 0 \<or> (0::real) \<noteq> 0"
    and nzb: "(0::real) \<noteq> 0 \<or> (0::real) \<noteq> 0 \<or> (3::real) \<noteq> 0"
    and orth: "(2::real) * 0 + 0 * 0 + 0 * 3 = 0"
    by simp_all
  have p: "(Fin 1, Fin 0, Fin 0) =
      (Fin (2 / euclid 2 0 0), Fin (0 / euclid 2 0 0), Fin (0 / euclid 2 0 0))"
    and q: "(Fin 0, Fin 0, Fin 1) =
      (Fin (0 / euclid 0 0 3), Fin (0 / euclid 0 0 3), Fin (3 / euclid 0 0 3))"
    by simp_all
  from cutting_plane_basis_orthonormal [OF src nza nzb orth p q, of some_image "Fin 2" "Fin 0"]
  show ?thesis
    using src by simp blast
qed




text \<open>
  C9, as stated, fails: for the zero normal with a basis given, \<^verbatim>\<open>_set_plane\<close>
  succeeds; the NaN of the unit normal spreads through the two matrix products
  (\<open>0 * NaN\<close> is NaN), and the last row of the returned matrix is not \<open>(0,0,0,1)\<close>.
\<close>

theorem affine_bottom_row_counterexample:
  "set_plane_matrix degenerate_example = Inr nan_matrix \<and>
   bottom_row nan_matrix = (NaN, NaN, NaN, NaN) \<and>
   bottom_row nan_matrix \<noteq> (Fin 0, Fin 0, Fin 0, Fin 1) \<and>
   matvec nan_matrix (Fin 0, Fin 0, Fin 0, Fin 1) = (NaN, NaN, NaN, NaN)"
  by (simp add: degenerate_example_matrix) (simp add: nan_matrix_def)

text \<open>
  C9, amended. With a finite resolved basis (which takes a normal that is not zero),
  center, width and height, the matrix that \<^verbatim>\<open>_set_plane\<close> returns has the last row
  \<open>(0,0,0,1)\<close>, with and without the cutting-plane correction, and maps every finite
  point \<open>(a, b, 0, 1)\<close> to a point whose fourth coordinate is 1.
\<close>

theorem affine_bottom_row:
  assumes basis: "resolve_basis s = Inr (e, n, u)"
    and fin: "finite3 e" "finite3 n" "finite3 u" "finite3 (center s)"
      "is_finite (width s)" "is_finite (height s)"
  shows "\<exists>T. set_plane_matrix s = Inr T \<and> bottom_row T = (Fin 0, Fin 0, Fin 0, Fin 1) \<and>
             (\<forall>a b. \<exists>x y z. matvec T (Fin a, Fin b, Fin 0, Fin 1) = (x, y, z, Fin 1))"
proof -
  from fin obtain e0 e1 e2 n0 n1 n2 u0 u1 u2 c0 c1 c2 w h where
    eq: "e = (Fin e0, Fin e1, Fin e2)" "n = (Fin n0, Fin n1, Fin n2)"
      "u = (Fin u0, Fin u1, Fin u2)" "center s = (Fin c0, Fin c1, Fin c2)"
      "width s = Fin w" "height s = Fin h"
    by (rule finite_fields)
  show ?thesis
  proof (cases "is_YTCuttingPlane (data_source s)")
    case True
    note T = corrected_matrix [OF basis [unfolded eq(1-3)] eq(4-6) True]
    show ?thesis unfolding T by simp
  next
    case False
    note T = uncorrected_matrix [OF basis [unfolded eq(1-3)] eq(4-6) False]
    show ?thesis unfolding T by simp
  qed
qed

text \<open>The witness: the cutting plane example (corrected) and the slice example (not).\<close>

theorem affine_bottom_row_witness:
  "resolve_basis cutting_example =
     Inr ((Fin 0, Fin (- 1), Fin 0), (Fin 0, Fin 0, Fin 1), (Fin 1, Fin 0, Fin 0)) \<and>
   (\<exists>T. set_plane_matrix cutting_example = Inr T \<and>
        bottom_row T = (Fin 0, Fin 0, Fin 0, Fin 1) \<and>
        (\<forall>a b. \<exists>x y z. matvec T (Fin a, Fin b, Fin 0, Fin 1) = (x, y, z, Fin 1))) \<and>
   resolve_basis slice_example =
     Inr ((Fin 1, Fin 0, Fin 0), (Fin 0, Fin 1, Fin 0), (Fin 0, Fin 0, Fin 1)) \<and>
   (\<exists>T. set_plane_matrix slice_example = Inr T \<and>
        bottom_row T = (Fin 0, Fin 0, Fin 0, Fin 1) \<and>
        (\<forall>a b. \<exists>x y z. matvec T (Fin a, Fin b, Fin 0, Fin 1) = (x, y, z, Fin 1)))"
proof -
  have finc: "finite3 (Fin 0, Fin (- 1), Fin 0)" "finite3 (Fin 0, Fin 0, Fin 1)"
    "finite3 (Fin 1, Fin 0, Fin 0)" "finite3 (center cutting_example)"
    "is_finite (width cutting_example)" "is_finite (height cutting_example)"
    by (simp_all add: cutting_example_def)
  have fins: "finite3 (Fin 1, Fin 0, Fin 0)" "finite3 (Fin 0, Fin 1, Fin 0)"
    "finite3 (Fin 0, Fin 0, Fin 1)" "finite3 (center slice_example)"
    "is_finite (width slice_example)" "is_finite (height slice_example)"
    by (simp_all add: slice_example_def)
  from affine_bottom_row [OF cutting_example_basis finc]
    affine_bottom_row [OF slice_example_basis fins]
    cutting_example_basis slice_example_basis
  show ?thesis by blast
qed

text \<open>
  C10. Whenever lines 135 to 166 of \<^verbatim>\<open>add_data\<close> return for a slice, a cutting plane
  or a projection, the basis of the object they leave resolves: \<^verbatim>\<open>_set_plane\<close> does
  not raise the error for a plane not normal to an axis (it raises nothing), and
  \<^verbatim>\<open>add_data\<close> returns with the matrix assigned.
\<close>

theorem derived_spec_resolves:
  assumes kind: "data_source s \<noteq> OtherContainer"
    and derived: "derive_spec f w t s = Returned s'"
  shows "resolve_basis s' \<noteq> Inl NonAxisAlignedPlaneError \<and>
         (\<exists>e n u. resolve_basis s' = Inr (e, n, u)) \<and>
         (\<exists>T. set_plane_matrix s' = Inr T \<and>
              add_data f w t s = Returned (s'\<lparr>to_worldview := Some T\<rparr>))"
proof -
  from derived_normal_or_basis [OF derived]
  obtain e n u where r: "resolve_basis s' = Inr (e, n, u)"
    using axis_normal_resolves explicit_basis_resolves by blast
  from set_plane_matrix_resolved [OF r]
  obtain T where T: "set_plane_matrix s' = Inr T" by blast
  have "add_data f w t s = Returned (s'\<lparr>to_worldview := Some T\<rparr>)"
    by (simp add: add_data_def derived set_plane_def T)
  with r T show ?thesis by (simp del: split_paired_Ex)
qed

text \<open>
  The witness: the slice of the scenario and the cutting plane example, derived from
  their data sources.
\<close>

theorem derived_spec_resolves_witness:
  "data_source (fresh (YTSlice 2 (Fin 5))) \<noteq> OtherContainer \<and>
   derive_spec [] (Fin 2) (Fin 0) (fresh (YTSlice 2 (Fin 5))) = Returned slice_example \<and>
   resolve_basis slice_example \<noteq> Inl NonAxisAlignedPlaneError \<and>
   (\<exists>T. set_plane_matrix slice_example = Inr T \<and>
        add_data [] (Fin 2) (Fin 0) (fresh (YTSlice 2 (Fin 5))) =
          Returned (slice_example\<lparr>to_worldview := Some T\<rparr>)) \<and>
   data_source (fresh cutting_source) \<noteq> OtherContainer \<and>
   derive_spec [] (Fin 2) (Fin 0) (fresh cutting_source) = Returned cutting_example \<and>
   resolve_basis cutting_example \<noteq> Inl NonAxisAlignedPlaneError \<and>
   (\<exists>T. set_plane_matrix cutting_example = Inr T \<and>
        add_data [] (Fin 2) (Fin 0) (fresh cutting_source) =
          Returned (cutting_example\<lparr>to_worldview := Some T\<rparr>))"
proof -
  have ks: "data_source (fresh (YTSlice 2 (Fin 5))) \<noteq> OtherContainer"
    and kc: "data_source (fresh cutting_source) \<noteq> OtherContainer"
    by (simp_all add: fresh_def cutting_source_def)
  have ds: "derive_spec [] (Fin 2) (Fin 0) (fresh (YTSlice 2 (Fin 5))) = Returned slice_example"
    by (simp add: derive_spec_def source_vectors_def fresh_def slice_example_def zeros3_def)
  have dc: "derive_spec [] (Fin 2) (Fin 0) (fresh cutting_source) = Returned cutting_example"
    by (simp add: derive_spec_def source_vectors_def fresh_def cutting_source_def
          cutting_example_def linalg_norm_def Let_def)
  from derived_spec_resolves [OF ks ds] derived_spec_resolves [OF kc dc] ks kc ds dc
  show ?thesis by blast
qed

end
